theory Spec2Isabelle
  imports Main
begin

section \<open>JavaScript values\<close>

text \<open>
  The client library is TypeScript; at run time its arguments and option objects are
  JavaScript values. An object is kept as the list of its property writes in the order they
  were made: a later write of a key overrides an earlier one, as it does in an object
  literal, in a spread and in an assignment. A function value is kept by its name. Numbers
  are only stored and compared by the code modelled here, never computed with, so they are
  kept as integers. A string is the list of its code units, which are 8-bit characters
  here: the strings of the model are those whose code units are below 256. The white space
  that \<^verbatim>\<open>trim\<close> removes among these is tab, line feed, vertical tab, form feed,
  carriage return, space and the no-break space U+00A0.
\<close>

datatype jsval =
    JUndefined
  | JNull
  | JBool bool
  | JNum int
  | JStr string
  | JFun string
  | JArr "jsval list"
  | JObj "(string \<times> jsval) list"

definition lookup :: "(string \<times> jsval) list \<Rightarrow> string \<Rightarrow> jsval option" where
  "lookup fs k = map_of (rev fs) k"

text \<open>
  \<^verbatim>\<open>v.k\<close> for a value that is neither undefined nor null, and for the property names
  the program reads (none is a built-in property of a string, an array, a number or a
  boolean): absent properties read as undefined.
\<close>

fun get :: "jsval \<Rightarrow> string \<Rightarrow> jsval" where
  "get (JObj fs) k = (case lookup fs k of Some v \<Rightarrow> v | None \<Rightarrow> JUndefined)"
| "get v k = JUndefined"

text \<open>\<^verbatim>\<open>v?.k\<close>: undefined when \<^verbatim>\<open>v\<close> is undefined or null.\<close>

fun opt_get :: "jsval \<Rightarrow> string \<Rightarrow> jsval" where
  "opt_get JUndefined k = JUndefined"
| "opt_get JNull k = JUndefined"
| "opt_get v k = get v k"

text \<open>\<^verbatim>\<open>o.k = v\<close> on an object.\<close>

definition set_prop :: "(string \<times> jsval) list \<Rightarrow> string \<Rightarrow> jsval \<Rightarrow> (string \<times> jsval) list" where
  "set_prop fs k v = fs @ [(k, v)]"

fun string_of_nat :: "nat \<Rightarrow> string" where
  "string_of_nat n =
     (if n < 10 then [char_of (48 + n)]
      else string_of_nat (n div 10) @ [char_of (48 + n mod 10)])"

text \<open>
  The own enumerable properties that a spread \<^verbatim>\<open>{...v}\<close> copies: those of an
  object, the indexed elements of an array or of a string, and nothing for undefined,
  null, numbers, booleans and functions.
\<close>

fun own_props :: "jsval \<Rightarrow> (string \<times> jsval) list" where
  "own_props (JObj fs) = fs"
| "own_props (JArr xs) = zip (map string_of_nat [0..<length xs]) xs"
| "own_props (JStr s) = zip (map string_of_nat [0..<length s]) (map (\<lambda>c. JStr [c]) s)"
| "own_props v = []"

text \<open>\<^verbatim>\<open>{...a, ...b}\<close>\<close>

definition spread :: "jsval \<Rightarrow> jsval \<Rightarrow> (string \<times> jsval) list" where
  "spread a b = own_props a @ own_props b"

fun truthy :: "jsval \<Rightarrow> bool" where
  "truthy JUndefined = False"
| "truthy JNull = False"
| "truthy (JBool b) = b"
| "truthy (JNum n) = (n \<noteq> 0)"
| "truthy (JStr s) = (s \<noteq> [])"
| "truthy (JFun f) = True"
| "truthy (JArr xs) = True"
| "truthy (JObj fs) = True"

fun is_string :: "jsval \<Rightarrow> bool" where
  "is_string (JStr s) = True"
| "is_string v = False"

definition isWhiteSpace :: "char \<Rightarrow> bool" where
  "isWhiteSpace c =
     (c \<in> set [CHR 0x09, CHR 0x0A, CHR 0x0B, CHR 0x0C, CHR 0x0D, CHR '' '', CHR 0xA0])"

definition trim :: "string \<Rightarrow> string" where
  "trim s = rev (dropWhile isWhiteSpace (rev (dropWhile isWhiteSpace s)))"

definition startsWith :: "string \<Rightarrow> string \<Rightarrow> bool" where
  "startsWith s p = (take (length p) s = p)"

section \<open>AgnostClient\<close>

datatype error = ClientError string string | TypeError string

text \<open>
  The parts of the library that the constructor calls and that are defined in other
  modules (\<^verbatim>\<open>utils/helpers\<close>, \<^verbatim>\<open>AuthManager\<close>) and the browser's
  \<^verbatim>\<open>window.localStorage\<close> are parameters of the model: \<^verbatim>\<open>checkRequired\<close>
  either throws (\<open>Some\<close>) or returns, \<^verbatim>\<open>getSession\<close> reads the stored session
  through the client's settings.
\<close>

record environment =
  window_localStorage :: jsval
  checkRequired :: "string \<Rightarrow> jsval \<Rightarrow> error option"
  normalizeUrl :: "string \<Rightarrow> string"
  getSession :: "jsval \<Rightarrow> jsval"

definition DEFAULT_realtime :: "(string \<times> jsval) list" where
  "DEFAULT_realtime =
     [(''autoJoinChannels'', JBool True),
      (''echoMessages'', JBool True),
      (''reconnectionDelay'', JNum 1000),
      (''timeout'', JNum 20000),
      (''bufferMessages'', JBool True)]"

definition DEFAULT_OPTIONS :: "environment \<Rightarrow> jsval" where
  "DEFAULT_OPTIONS env =
     JObj [(''signInRedirect'', JUndefined),
           (''localStorage'', window_localStorage env),
           (''realtime'', JObj DEFAULT_realtime)]"

record Fetcher =
  baseUrl :: string
  headers :: "(string \<times> jsval) list"
  session :: jsval

text \<open>
  The manager objects a client creates. A reference to a manager is its index in the list
  of objects the client has allocated; two accesses return the identical instance when
  they return the same reference. Only \<^verbatim>\<open>StorageManager\<close> has a field of its own
  (the storage name); the managers share the client's fetcher and settings.
\<close>

datatype manager = AuthManager | EndpointManager | StorageManager string | RealtimeManager

record AgnostClient =
  settings :: jsval
  fetcher :: Fetcher
  authManager :: "nat option"
  epManager :: "nat option"
  storageManager :: "nat option"
  realtimeManager :: "nat option"
  objects :: "manager list"

definition new_object :: "manager \<Rightarrow> AgnostClient \<Rightarrow> nat \<times> AgnostClient" where
  "new_object m c = (length (objects c), c\<lparr>objects := objects c @ [m]\<rparr>)"

definition auth :: "AgnostClient \<Rightarrow> nat \<times> AgnostClient" where
  "auth c =
     (case authManager c of
        Some r \<Rightarrow> (r, c)
      | None \<Rightarrow> (case new_object AuthManager c of (r, c') \<Rightarrow> (r, c'\<lparr>authManager := Some r\<rparr>)))"

definition endpoint :: "AgnostClient \<Rightarrow> nat \<times> AgnostClient" where
  "endpoint c =
     (case epManager c of
        Some r \<Rightarrow> (r, c)
      | None \<Rightarrow> (case new_object EndpointManager c of (r, c') \<Rightarrow> (r, c'\<lparr>epManager := Some r\<rparr>)))"

definition storage :: "string \<Rightarrow> AgnostClient \<Rightarrow> nat \<times> AgnostClient" where
  "storage storageName c =
     (case storageManager c of
        Some r \<Rightarrow> (r, c)
      | None \<Rightarrow> (case new_object (StorageManager storageName) c of
                   (r, c') \<Rightarrow> (r, c'\<lparr>storageManager := Some r\<rparr>)))"

definition realtime :: "AgnostClient \<Rightarrow> nat \<times> AgnostClient" where
  "realtime c =
     (case realtimeManager c of
        Some r \<Rightarrow> (r, c)
      | None \<Rightarrow> (case new_object RealtimeManager c of
                   (r, c') \<Rightarrow> (r, c'\<lparr>realtimeManager := Some r\<rparr>)))"

definition baseUrl_message :: string where
  "baseUrl_message = ''baseUrl is a required parameter and needs to start with http(s)://''"

definition apiKey_message :: string where
  "apiKey_message = ''apiKey needs to be a valid key string''"

text \<open>
  The statements of the constructor after both checks have passed: the manager fields are
  cleared, the settings are the defaults overridden by the caller's options (the
  \<^verbatim>\<open>realtime\<close> property merged one level deeper), the fetcher is created with the
  API key as its Authorization header, and the stored session, read through the
  \<^verbatim>\<open>auth\<close> accessor, is handed to the fetcher.
\<close>

definition initialize :: "environment \<Rightarrow> string \<Rightarrow> string \<Rightarrow> jsval \<Rightarrow> AgnostClient" where
  "initialize env url key options =
     (let settings0 = spread (DEFAULT_OPTIONS env) options;
          settings1 = JObj (set_prop settings0 ''realtime''
                        (JObj (spread (get (DEFAULT_OPTIONS env) ''realtime'')
                                      (opt_get options ''realtime''))));
          hdrs = set_prop [(''X-Client'', JStr ''agnost-js'')] ''Authorization'' (JStr key);
          c0 = \<lparr>settings = settings1,
                fetcher = \<lparr>baseUrl = normalizeUrl env url, headers = hdrs, session = JUndefined\<rparr>,
                authManager = None, epManager = None, storageManager = None,
                realtimeManager = None, objects = []\<rparr>
      in case auth c0 of
           (a, c1) \<Rightarrow> c1\<lparr>fetcher := (fetcher c1)\<lparr>session := getSession env (settings c1)\<rparr>\<rparr>)"

definition constructor :: "environment \<Rightarrow> jsval \<Rightarrow> jsval \<Rightarrow> jsval \<Rightarrow> error + AgnostClient" where
  "constructor env url apiKey options =
     (if \<not> truthy url then Inl (ClientError ''missing_required_value'' baseUrl_message)
      else case url of
        JStr b \<Rightarrow>
          if \<not> (startsWith (trim b) ''https://'' \<or> startsWith (trim b) ''http://'')
          then Inl (ClientError ''missing_required_value'' baseUrl_message)
          else (case checkRequired env ''apiKey'' apiKey of
                  Some e \<Rightarrow> Inl e
                | None \<Rightarrow>
                    (case apiKey of
                       JStr key \<Rightarrow> Inr (initialize env b key options)
                     | _ \<Rightarrow> Inl (ClientError ''invalid_client_key'' apiKey_message)))
      | _ \<Rightarrow> Inl (TypeError ''baseUrl.trim is not a function''))"

text \<open>
  Sequences of accesses to the four managers of one client, and the references they return.
\<close>

datatype access = Auth | Endpoint | Storage string | Realtime

datatype kind = KAuth | KEndpoint | KStorage | KRealtime

fun kind_of_access :: "access \<Rightarrow> kind" where
  "kind_of_access Auth = KAuth"
| "kind_of_access Endpoint = KEndpoint"
| "kind_of_access (Storage n) = KStorage"
| "kind_of_access Realtime = KRealtime"

fun kind_of_manager :: "manager \<Rightarrow> kind" where
  "kind_of_manager AuthManager = KAuth"
| "kind_of_manager EndpointManager = KEndpoint"
| "kind_of_manager (StorageManager n) = KStorage"
| "kind_of_manager RealtimeManager = KRealtime"

fun slot :: "kind \<Rightarrow> AgnostClient \<Rightarrow> nat option" where
  "slot KAuth c = authManager c"
| "slot KEndpoint c = epManager c"
| "slot KStorage c = storageManager c"
| "slot KRealtime c = realtimeManager c"

fun perform :: "access \<Rightarrow> AgnostClient \<Rightarrow> nat \<times> AgnostClient" where
  "perform Auth c = auth c"
| "perform Endpoint c = endpoint c"
| "perform (Storage n) c = storage n c"
| "perform Realtime c = realtime c"

fun run :: "access list \<Rightarrow> AgnostClient \<Rightarrow> nat list \<times> AgnostClient" where
  "run [] c = ([], c)"
| "run (a # as) c =
     (case perform a c of (r, c') \<Rightarrow> (case run as c' of (rs, c'') \<Rightarrow> (r # rs, c'')))"

text \<open>How many managers of a kind the client has constructed.\<close>

definition constructed :: "kind \<Rightarrow> AgnostClient \<Rightarrow> nat" where
  "constructed k c = length (filter (\<lambda>m. kind_of_manager m = k) (objects c))"

section \<open>StorageManager and BucketManager\<close>

record BucketManager =
  storageName :: string
  bucketName :: string

text \<open>\<^verbatim>\<open>bucket(name)\<close> is a method of storage managers only.\<close>

fun bucket :: "manager \<Rightarrow> string \<Rightarrow> BucketManager option" where
  "bucket (StorageManager s) name = Some \<lparr>storageName = s, bucketName = name\<rparr>"
| "bucket m name = None"

text \<open>The path that \<^verbatim>\<open>upload\<close> sends the file to.\<close>

definition upload_path :: "BucketManager \<Rightarrow> string" where
  "upload_path b = ''/storage/'' @ storageName b @ ''/bucket/'' @ bucketName b @ ''/upload-formdata''"

text \<open>An environment to evaluate the constructor in.\<close>

definition example_environment :: environment where
  "example_environment =
     \<lparr>window_localStorage = JUndefined,
      checkRequired = (\<lambda>name v.
         if v = JUndefined \<or> v = JNull
         then Some (ClientError ''missing_required_value'' (name @ '' is a required parameter''))
         else None),
      normalizeUrl = (\<lambda>u. u),
      getSession = (\<lambda>s. JNull)\<rparr>"

text \<open>
  Invariant of the manager fields: a field that is still null has no manager of its kind
  among the client's objects, a field that is set refers to the only one.
\<close>

definition managers_ok :: "AgnostClient \<Rightarrow> bool" where
  "managers_ok c =
     (\<forall>k. (case slot k c of
              None \<Rightarrow> constructed k c = 0
            | Some r \<Rightarrow> constructed k c = 1 \<and> r < length (objects c)
                          \<and> kind_of_manager (objects c ! r) = k))"

text \<open>The manager an access constructs when the field is still null.\<close>

definition fresh :: "access \<Rightarrow> manager" where
  "fresh a =
     (case a of
        Auth \<Rightarrow> AuthManager
      | Endpoint \<Rightarrow> EndpointManager
      | Storage n \<Rightarrow> StorageManager n
      | Realtime \<Rightarrow> RealtimeManager)"

section \<open>Realtime event data\<close>

text \<open>
  The interface \<^verbatim>\<open>EventData\<close> of \<^verbatim>\<open>types.ts\<close>, the parameter type of a
  \<^verbatim>\<open>ListenerFunction\<close>, and the JavaScript object that a value of it is.
\<close>

record EventData =
  channel :: "string option"
  message :: jsval



section \<open>Realtime Channel Client\<close>

text \<open>
  Modelled from the spec: the module \<^verbatim>\<open>RealtimeManager\<close> that implements the realtime
  client is not among the sources, so the definitions of this section follow the data model
  and the component design of the specification (its sections 3 and 4): the connection
  states, the envelope, the channel registry, the outbound buffer, the listener registry
  and the operations on them, together with the rule of its section 8 that
  \<^verbatim>\<open>join\<close> and \<^verbatim>\<open>send\<close> fail once the client is \<open>Closed\<close>. The
  specification names no condition for that failure; the model reports
  \<^verbatim>\<open>not_connected\<close>, its condition for a call made while offline. The transport is
  the list of frames handed to it, oldest first. Presence snapshots are not kept, no
  operation below reads them.
\<close>

datatype conn_state = Disconnected | Connecting | Connected | Reconnecting | Closed

record Envelope =
  channel :: "string option"
  event :: string
  payload :: jsval
  originId :: string

datatype frame = JoinFrame string | LeaveFrame string | MessageFrame Envelope

datatype condition =
    session_required
  | not_connected
  | session_expired
  | connection_timeout
  | transport_error
  | listener_error

text \<open>Modelled from the spec: the recognised options, with their effective values.\<close>

record realtime_config =
  autoJoinChannels :: bool
  echoMessages :: bool
  reconnectionDelay :: nat
  timeout :: nat
  bufferMessages :: bool

text \<open>
  Modelled from the spec: the state of one Realtime Channel Client. ChannelMembership is
  kept in the order the channels were joined; a callback is known by a number.
\<close>

record RealtimeClient =
  config :: realtime_config
  state :: conn_state
  connectionId :: "string option"
  membership :: "string list"
  buffer :: "Envelope list"
  transmitted :: "frame list"
  listeners :: "(string \<times> nat) list"
  joinListeners :: "nat list"
  leaveListeners :: "nat list"
  updateListeners :: "nat list"

text \<open>
  Modelled from the spec: \<^verbatim>\<open>join(name)\<close> fails once the client is
  \<open>Closed\<close>, with no change to it. In every other state it adds the channel to the
  registry, a no-op on the registry when it is already there, and a join frame is sent if
  connected.
\<close>

definition join :: "string \<Rightarrow> RealtimeClient \<Rightarrow> condition + RealtimeClient" where
  "join name c =
     (if state c = Closed then Inl not_connected
      else Inr (c\<lparr>membership := (if name \<in> set (membership c) then membership c
                                  else membership c @ [name]),
                  transmitted := (if state c = Connected then transmitted c @ [JoinFrame name]
                                   else transmitted c)\<rparr>))"

text \<open>
  Modelled from the spec: \<^verbatim>\<open>leave(name)\<close> removes the channel from the registry and
  sends a leave frame if connected; a no-op when the channel is not in the registry.
\<close>

definition leave :: "string \<Rightarrow> RealtimeClient \<Rightarrow> RealtimeClient" where
  "leave name c =
     (if name \<in> set (membership c)
      then c\<lparr>membership := removeAll name (membership c),
             transmitted := (if state c = Connected then transmitted c @ [LeaveFrame name]
                              else transmitted c)\<rparr>
      else c)"

text \<open>
  Modelled from the spec: the envelope that \<^verbatim>\<open>send\<close> builds. The origin is the
  connection identifier; the specification does not say what it is before the server has
  assigned one, the model uses the empty string.
\<close>

definition build_envelope :: "string option \<Rightarrow> string option \<Rightarrow> string \<Rightarrow> jsval \<Rightarrow> Envelope" where
  "build_envelope cid ch ev p =
     \<lparr>channel = ch, event = ev, payload = p,
      originId = (case cid of None \<Rightarrow> [] | Some i \<Rightarrow> i)\<rparr>"

text \<open>
  Modelled from the spec: \<^verbatim>\<open>send(channel, event, payload)\<close> fails once the client
  is \<open>Closed\<close>, nothing queued. In every other state it transmits at once if
  connected, else appends to the buffer if buffering is enabled, else fails with
  \<^verbatim>\<open>not_connected\<close>.
\<close>

definition send :: "string option \<Rightarrow> string \<Rightarrow> jsval \<Rightarrow> RealtimeClient \<Rightarrow> condition + RealtimeClient" where
  "send ch ev p c =
     (let e = build_envelope (connectionId c) ch ev p in
      if state c = Closed then Inl not_connected
      else if state c = Connected then Inr (c\<lparr>transmitted := transmitted c @ [MessageFrame e]\<rparr>)
      else if bufferMessages (config c) then Inr (c\<lparr>buffer := buffer c @ [e]\<rparr>)
      else Inl not_connected)"

text \<open>
  Modelled from the spec: \<^verbatim>\<open>connect()\<close> leaves \<open>Disconnected\<close> for
  \<open>Connecting\<close> when the session gate allows it and fails with
  \<^verbatim>\<open>session_required\<close> otherwise. In the other states the specification gives the call
  no transition: the client is unchanged.
\<close>

definition connect :: "bool \<Rightarrow> RealtimeClient \<Rightarrow> condition + RealtimeClient" where
  "connect gate_allows c =
     (if state c = Disconnected
      then (if gate_allows then Inr (c\<lparr>state := Connecting\<rparr>) else Inl session_required)
      else Inr c)"

text \<open>
  Modelled from the spec: the connection attempt succeeds. The server's identifier is
  assigned, the joins of every channel in the registry are sent again if
  \<^verbatim>\<open>autoJoinChannels\<close> is enabled, then the buffer is flushed in FIFO order and cleared
  if \<^verbatim>\<open>bufferMessages\<close> is enabled.
\<close>

definition rejoin_frames :: "RealtimeClient \<Rightarrow> frame list" where
  "rejoin_frames c = (if autoJoinChannels (config c) then map JoinFrame (membership c) else [])"

definition flush_frames :: "RealtimeClient \<Rightarrow> frame list" where
  "flush_frames c = (if bufferMessages (config c) then map MessageFrame (buffer c) else [])"

definition opened :: "string \<Rightarrow> RealtimeClient \<Rightarrow> RealtimeClient" where
  "opened server_id c =
     (if state c = Connecting
      then c\<lparr>state := Connected,
             connectionId := Some server_id,
             transmitted := transmitted c @ rejoin_frames c @ flush_frames c,
             buffer := (if bufferMessages (config c) then [] else buffer c)\<rparr>
      else c)"

text \<open>
  Modelled from the spec: the other transitions of the connection controller. An attempt
  that fails or times out and a transport that drops lead to \<open>Reconnecting\<close>, the
  reconnect timer leads back to \<open>Connecting\<close>, and \<^verbatim>\<open>disconnect()\<close> closes the
  client from any state and discards the buffer.
\<close>

definition failed :: "RealtimeClient \<Rightarrow> RealtimeClient" where
  "failed c = (if state c = Connecting then c\<lparr>state := Reconnecting\<rparr> else c)"

definition dropped :: "RealtimeClient \<Rightarrow> RealtimeClient" where
  "dropped c = (if state c = Connected then c\<lparr>state := Reconnecting\<rparr> else c)"

definition timer_fired :: "RealtimeClient \<Rightarrow> RealtimeClient" where
  "timer_fired c = (if state c = Reconnecting then c\<lparr>state := Connecting\<rparr> else c)"

definition disconnect :: "RealtimeClient \<Rightarrow> RealtimeClient" where
  "disconnect c = c\<lparr>state := Closed, buffer := []\<rparr>"

text \<open>
  Modelled from the spec: what happens to a client, one event after the other. A call that
  fails leaves the client as it was.
\<close>

datatype action =
    Join string
  | Leave string
  | Send "string option" string jsval
  | Connect bool
  | Opened string
  | Failed
  | Dropped
  | TimerFired
  | Disconnect

fun step :: "action \<Rightarrow> RealtimeClient \<Rightarrow> RealtimeClient" where
  "step (Join n) c = (case join n c of Inl x \<Rightarrow> c | Inr c' \<Rightarrow> c')"
| "step (Leave n) c = leave n c"
| "step (Send ch ev p) c = (case send ch ev p c of Inl x \<Rightarrow> c | Inr c' \<Rightarrow> c')"
| "step (Connect g) c = (case connect g c of Inl x \<Rightarrow> c | Inr c' \<Rightarrow> c')"
| "step (Opened i) c = opened i c"
| "step Failed c = failed c"
| "step Dropped c = dropped c"
| "step TimerFired c = timer_fired c"
| "step Disconnect c = disconnect c"

fun steps :: "action list \<Rightarrow> RealtimeClient \<Rightarrow> RealtimeClient" where
  "steps [] c = c"
| "steps (a # as) c = steps as (step a c)"

text \<open>The envelopes of the send calls among a list of actions, in the order of the calls.\<close>

fun sent_envelopes :: "string option \<Rightarrow> action list \<Rightarrow> Envelope list" where
  "sent_envelopes cid [] = []"
| "sent_envelopes cid (Send ch ev p # as) = build_envelope cid ch ev p # sent_envelopes cid as"
| "sent_envelopes cid (a # as) = sent_envelopes cid as"

text \<open>The actions that neither open nor close the connection.\<close>

fun offline_action :: "action \<Rightarrow> bool" where
  "offline_action (Opened i) = False"
| "offline_action Disconnect = False"
| "offline_action a = True"

text \<open>
  Modelled from the spec: the listener registry and the dispatch of an inbound frame. The
  presence notifications are the frames of the three reserved events; their system
  listeners run first and whatever the origin. The listeners registered with \<^verbatim>\<open>on\<close>
  for the frame's event follow in registration order, unless echo suppression is enabled
  and the frame's origin is the local connection identifier.
\<close>

definition on :: "string \<Rightarrow> nat \<Rightarrow> RealtimeClient \<Rightarrow> RealtimeClient" where
  "on eventName callback c = c\<lparr>listeners := listeners c @ [(eventName, callback)]\<rparr>"

definition onJoin :: "nat \<Rightarrow> RealtimeClient \<Rightarrow> RealtimeClient" where
  "onJoin callback c = c\<lparr>joinListeners := joinListeners c @ [callback]\<rparr>"

definition onLeave :: "nat \<Rightarrow> RealtimeClient \<Rightarrow> RealtimeClient" where
  "onLeave callback c = c\<lparr>leaveListeners := leaveListeners c @ [callback]\<rparr>"

definition onUpdate :: "nat \<Rightarrow> RealtimeClient \<Rightarrow> RealtimeClient" where
  "onUpdate callback c = c\<lparr>updateListeners := updateListeners c @ [callback]\<rparr>"

datatype invocation = System nat Envelope | Custom nat Envelope

definition presence_listeners :: "RealtimeClient \<Rightarrow> string \<Rightarrow> nat list" where
  "presence_listeners c ev =
     (if ev = ''member-joined'' then joinListeners c
      else if ev = ''member-left'' then leaveListeners c
      else if ev = ''member-updated'' then updateListeners c
      else [])"

definition suppressed :: "RealtimeClient \<Rightarrow> Envelope \<Rightarrow> bool" where
  "suppressed c e = (\<not> echoMessages (config c) \<and> connectionId c = Some (originId e))"

definition dispatch :: "RealtimeClient \<Rightarrow> Envelope \<Rightarrow> invocation list" where
  "dispatch c e =
     map (\<lambda>l. System l e) (presence_listeners c (event e))
     @ (if suppressed c e then []
        else map (\<lambda>l. Custom l e) (map snd (filter (\<lambda>r. fst r = event e) (listeners c))))"

text \<open>Clients to evaluate the operations on.\<close>

definition example_realtime :: RealtimeClient where
  "example_realtime =
     \<lparr>config = \<lparr>autoJoinChannels = True, echoMessages = False, reconnectionDelay = 1000,
                timeout = 20000, bufferMessages = True\<rparr>,
      state = Disconnected, connectionId = None, membership = [], buffer = [],
      transmitted = [], listeners = [], joinListeners = [], leaveListeners = [],
      updateListeners = []\<rparr>"

definition example_listening :: RealtimeClient where
  "example_listening =
     onUpdate 9 (onLeave 8 (onJoin 7 (on ''member-joined'' 3 (on ''msg'' 2 (on ''msg'' 1
       (example_realtime\<lparr>state := Connected, connectionId := Some ''me''\<rparr>))))))"

definition example_offline :: RealtimeClient where
  "example_offline =
     steps [Join ''chat_room'', Connect True, Opened ''c1'', Dropped] example_realtime"

section \<open>Properties of the AgnostClient\<close>

subsection \<open>Reading merged objects\<close>

lemma lookup_append: "lookup (xs @ ys) k = (case lookup ys k of Some v \<Rightarrow> Some v | None \<Rightarrow> lookup xs k)"
  by (simp add: lookup_def map_add_def split: option.splits)

lemma lookup_set_prop: "lookup (set_prop fs k v) k' = (if k' = k then Some v else lookup fs k')"
  by (simp add: lookup_def set_prop_def)

lemma settings_initialize:
  "settings (initialize env b key options) =
     JObj (set_prop (spread (DEFAULT_OPTIONS env) options) ''realtime''
            (JObj (spread (JObj DEFAULT_realtime) (opt_get options ''realtime''))))"
  by (simp add: initialize_def Let_def auth_def new_object_def DEFAULT_OPTIONS_def lookup_def)

lemma constructor_Inr:
  "constructor env url apiKey options = Inr c \<Longrightarrow>
     \<exists>b key. url = JStr b \<and> apiKey = JStr key \<and> c = initialize env b key options
       \<and> (startsWith (trim b) ''https://'' \<or> startsWith (trim b) ''http://'')
       \<and> checkRequired env ''apiKey'' apiKey = None"
  by (auto simp: constructor_def split: if_splits jsval.splits option.splits)

text \<open>
  Claim C5. For every client that the constructor returns, whatever options were passed
  (absent, null, partial), each realtime setting is the value the caller supplied under
  that key in \<^verbatim>\<open>options.realtime\<close>, and the default when the caller supplied none:
  \<^verbatim>\<open>autoJoinChannels\<close> true, \<^verbatim>\<open>echoMessages\<close> true,
  \<^verbatim>\<open>reconnectionDelay\<close> 1000, \<^verbatim>\<open>timeout\<close> 20000 and
  \<^verbatim>\<open>bufferMessages\<close> true. A key is supplied when it is an own property of the
  object passed, also when its value is undefined.
\<close>

theorem realtime_settings:
  assumes "constructor env url apiKey options = Inr c"
  shows "get (get (settings c) ''realtime'') k =
           (case lookup (own_props (opt_get options ''realtime'')) k of
              Some v \<Rightarrow> v
            | None \<Rightarrow> get (JObj DEFAULT_realtime) k)
         \<and> get (JObj DEFAULT_realtime) ''autoJoinChannels'' = JBool True
         \<and> get (JObj DEFAULT_realtime) ''echoMessages'' = JBool True
         \<and> get (JObj DEFAULT_realtime) ''reconnectionDelay'' = JNum 1000
         \<and> get (JObj DEFAULT_realtime) ''timeout'' = JNum 20000
         \<and> get (JObj DEFAULT_realtime) ''bufferMessages'' = JBool True"
proof -
  from assms obtain b key where c: "c = initialize env b key options"
    using constructor_Inr by blast
  have "get (get (settings c) ''realtime'') k =
           (case lookup (own_props (opt_get options ''realtime'')) k of
              Some v \<Rightarrow> v
            | None \<Rightarrow> get (JObj DEFAULT_realtime) k)"
    unfolding c settings_initialize
    by (simp add: lookup_set_prop spread_def lookup_append split: option.splits)
  moreover have "get (JObj DEFAULT_realtime) ''autoJoinChannels'' = JBool True"
    by (simp add: DEFAULT_realtime_def lookup_def)
  moreover have "get (JObj DEFAULT_realtime) ''echoMessages'' = JBool True"
    by (simp add: DEFAULT_realtime_def lookup_def)
  moreover have "get (JObj DEFAULT_realtime) ''reconnectionDelay'' = JNum 1000"
    by (simp add: DEFAULT_realtime_def lookup_def)
  moreover have "get (JObj DEFAULT_realtime) ''timeout'' = JNum 20000"
    by (simp add: DEFAULT_realtime_def lookup_def)
  moreover have "get (JObj DEFAULT_realtime) ''bufferMessages'' = JBool True"
    by (simp add: DEFAULT_realtime_def lookup_def)
  ultimately show ?thesis by blast
qed

theorem realtime_settings_witness:
  "\<exists>c. constructor example_environment (JStr ''https://api.example.com'') (JStr ''key'')
          (JObj [(''realtime'', JObj [(''timeout'', JNum 50), (''echoMessages'', JUndefined)])]) = Inr c
      \<and> get (get (settings c) ''realtime'') ''timeout'' = JNum 50
      \<and> get (get (settings c) ''realtime'') ''echoMessages'' = JUndefined
      \<and> get (get (settings c) ''realtime'') ''bufferMessages'' = JBool True
      \<and> get (get (settings c) ''realtime'') ''reconnectionDelay'' = JNum 1000"
proof -
  have t: "trim ''https://api.example.com'' = ''https://api.example.com''"
    by (simp add: trim_def isWhiteSpace_def)
  obtain c where c: "constructor example_environment (JStr ''https://api.example.com'') (JStr ''key'')
          (JObj [(''realtime'', JObj [(''timeout'', JNum 50), (''echoMessages'', JUndefined)])]) = Inr c"
    by (simp add: constructor_def t startsWith_def example_environment_def)
  note r = realtime_settings [OF c]
  have "get (get (settings c) ''realtime'') ''timeout'' = JNum 50"
    using r [of "''timeout''"] by (simp add: lookup_def)
  moreover have "get (get (settings c) ''realtime'') ''echoMessages'' = JUndefined"
    using r [of "''echoMessages''"] by (simp add: lookup_def)
  moreover have "get (get (settings c) ''realtime'') ''bufferMessages'' = JBool True"
    using r [of "''bufferMessages''"] by (simp add: lookup_def)
  moreover have "get (get (settings c) ''realtime'') ''reconnectionDelay'' = JNum 1000"
    using r [of "''reconnectionDelay''"] by (simp add: lookup_def)
  ultimately show ?thesis using c by blast
qed

subsection \<open>The checks of the constructor\<close>

lemma startsWith_trim_nonempty:
  "startsWith (trim b) ''https://'' \<or> startsWith (trim b) ''http://'' \<Longrightarrow> b \<noteq> []"
  by (auto simp: startsWith_def trim_def)

text \<open>
  Claim C9. The constructor throws a \<^verbatim>\<open>ClientError\<close> with code
  \<^verbatim>\<open>missing_required_value\<close> for every base URL that is absent or empty, and for
  every one whose trimmed value starts with neither \<^verbatim>\<open>https://\<close> nor
  \<^verbatim>\<open>http://\<close>; once the base URL and the required-value check of the API key have
  passed, it throws a \<^verbatim>\<open>ClientError\<close> with code \<^verbatim>\<open>invalid_client_key\<close> for
  every API key that is not a string, and no API key that is not a string ever yields a
  client; when it returns a client, both checks have passed.
\<close>

theorem constructor_checks:
  "(\<not> truthy url \<longrightarrow>
      constructor env url apiKey options = Inl (ClientError ''missing_required_value'' baseUrl_message))
   \<and> (\<not> (startsWith (trim b) ''https://'' \<or> startsWith (trim b) ''http://'') \<longrightarrow>
      constructor env (JStr b) apiKey options = Inl (ClientError ''missing_required_value'' baseUrl_message))
   \<and> ((startsWith (trim b) ''https://'' \<or> startsWith (trim b) ''http://'')
        \<and> checkRequired env ''apiKey'' apiKey = None \<and> \<not> is_string apiKey \<longrightarrow>
      constructor env (JStr b) apiKey options = Inl (ClientError ''invalid_client_key'' apiKey_message))
   \<and> (\<not> is_string apiKey \<longrightarrow> (\<forall>c. constructor env url apiKey options \<noteq> Inr c))
   \<and> (constructor env url apiKey options = Inr c \<longrightarrow>
        (\<exists>u key. url = JStr u \<and> u \<noteq> []
           \<and> (startsWith (trim u) ''https://'' \<or> startsWith (trim u) ''http://'')
           \<and> checkRequired env ''apiKey'' apiKey = None \<and> apiKey = JStr key))"
proof (intro conjI impI)
  assume "\<not> truthy url"
  then show "constructor env url apiKey options = Inl (ClientError ''missing_required_value'' baseUrl_message)"
    by (simp add: constructor_def)
next
  assume "\<not> (startsWith (trim b) ''https://'' \<or> startsWith (trim b) ''http://'')"
  then show "constructor env (JStr b) apiKey options = Inl (ClientError ''missing_required_value'' baseUrl_message)"
    by (simp add: constructor_def)
next
  assume a: "(startsWith (trim b) ''https://'' \<or> startsWith (trim b) ''http://'')
        \<and> checkRequired env ''apiKey'' apiKey = None \<and> \<not> is_string apiKey"
  then have "b \<noteq> []" using startsWith_trim_nonempty by blast
  with a show "constructor env (JStr b) apiKey options = Inl (ClientError ''invalid_client_key'' apiKey_message)"
    by (cases apiKey) (auto simp: constructor_def)
next
  assume "\<not> is_string apiKey"
  then show "\<forall>c. constructor env url apiKey options \<noteq> Inr c"
    using constructor_Inr by fastforce
next
  assume "constructor env url apiKey options = Inr c"
  from constructor_Inr [OF this] startsWith_trim_nonempty
  show "\<exists>u key. url = JStr u \<and> u \<noteq> []
           \<and> (startsWith (trim u) ''https://'' \<or> startsWith (trim u) ''http://'')
           \<and> checkRequired env ''apiKey'' apiKey = None \<and> apiKey = JStr key"
    by blast
qed

lemma trim_ex1: "trim ''  https://api.example.com '' = ''https://api.example.com''"
  by (simp add: trim_def isWhiteSpace_def)

theorem constructor_checks_witness:
  "constructor example_environment JUndefined (JStr ''key'') JUndefined
      = Inl (ClientError ''missing_required_value'' baseUrl_message)
   \<and> constructor example_environment (JStr []) (JStr ''key'') JUndefined
      = Inl (ClientError ''missing_required_value'' baseUrl_message)
   \<and> constructor example_environment (JStr ''ftp://example.com'') (JStr ''key'') JUndefined
      = Inl (ClientError ''missing_required_value'' baseUrl_message)
   \<and> constructor example_environment (JStr ''  https://api.example.com '') (JNum 42) JUndefined
      = Inl (ClientError ''invalid_client_key'' apiKey_message)
   \<and> (\<exists>c. constructor example_environment (JStr ''  https://api.example.com '') (JStr ''key'') JUndefined = Inr c)
   \<and> (\<exists>c. constructor example_environment (JStr (CHR 0xA0 # ''https://api.example.com'')) (JStr ''key'') JUndefined = Inr c)"
proof -
  have t: "trim ''ftp://example.com'' = ''ftp://example.com''"
    by (simp add: trim_def isWhiteSpace_def)
  have 1: "constructor example_environment JUndefined (JStr ''key'') JUndefined
      = Inl (ClientError ''missing_required_value'' baseUrl_message)"
    using constructor_checks [of JUndefined example_environment "JStr ''key''" JUndefined]
    by simp
  have 2: "constructor example_environment (JStr []) (JStr ''key'') JUndefined
      = Inl (ClientError ''missing_required_value'' baseUrl_message)"
    using constructor_checks [of "JStr []" example_environment "JStr ''key''" JUndefined]
    by simp
  have 3: "constructor example_environment (JStr ''ftp://example.com'') (JStr ''key'') JUndefined
      = Inl (ClientError ''missing_required_value'' baseUrl_message)"
    using constructor_checks [of _ example_environment "JStr ''key''" JUndefined "''ftp://example.com''"]
    by (simp add: t startsWith_def)
  have 4: "constructor example_environment (JStr ''  https://api.example.com '') (JNum 42) JUndefined
      = Inl (ClientError ''invalid_client_key'' apiKey_message)"
    using constructor_checks [of _ example_environment "JNum 42" JUndefined "''  https://api.example.com ''"]
    by (simp add: trim_ex1 startsWith_def example_environment_def)
  have 5: "\<exists>c. constructor example_environment (JStr ''  https://api.example.com '') (JStr ''key'') JUndefined = Inr c"
    by (simp add: constructor_def trim_ex1 startsWith_def example_environment_def)
  have n: "trim (CHR 0xA0 # ''https://api.example.com'') = ''https://api.example.com''"
    by (simp add: trim_def isWhiteSpace_def)
  have 6: "\<exists>c. constructor example_environment (JStr (CHR 0xA0 # ''https://api.example.com'')) (JStr ''key'') JUndefined = Inr c"
    by (simp add: constructor_def n startsWith_def example_environment_def)
  from 1 2 3 4 5 6 show ?thesis by blast
qed

subsection \<open>The manager accessors\<close>

lemma perform_hit: "slot (kind_of_access a) c = Some r \<Longrightarrow> perform a c = (r, c)"
  by (cases a) (simp_all add: auth_def endpoint_def storage_def realtime_def)

lemma perform_miss_result:
  "slot (kind_of_access a) c = None \<Longrightarrow> fst (perform a c) = length (objects c)"
  by (cases a) (simp_all add: auth_def endpoint_def storage_def realtime_def new_object_def)

lemma perform_miss_objects:
  "slot (kind_of_access a) c = None \<Longrightarrow> objects (snd (perform a c)) = objects c @ [fresh a]"
  by (cases a) (simp_all add: auth_def endpoint_def storage_def realtime_def new_object_def fresh_def)

lemma perform_miss_slot:
  "slot (kind_of_access a) c = None \<Longrightarrow>
     slot k (snd (perform a c)) = (if k = kind_of_access a then Some (length (objects c)) else slot k c)"
  by (cases a; cases k) (simp_all add: auth_def endpoint_def storage_def realtime_def new_object_def)

lemma kind_fresh: "kind_of_manager (fresh a) = kind_of_access a"
  by (cases a) (simp_all add: fresh_def)

lemma perform_slot: "perform a c = (r, c') \<Longrightarrow> slot (kind_of_access a) c' = Some r"
proof (cases "slot (kind_of_access a) c")
  case None
  assume "perform a c = (r, c')"
  with perform_miss_result [OF None] perform_miss_slot [OF None, of "kind_of_access a"]
  show ?thesis by simp
next
  case (Some q)
  assume "perform a c = (r, c')"
  with perform_hit [OF Some] Some show ?thesis by simp
qed

lemma perform_slot_keep:
  assumes "slot k c = Some r" and "perform a c = (r', c')"
  shows "slot k c' = Some r"
proof (cases "slot (kind_of_access a) c")
  case None
  with assms(1) have "k \<noteq> kind_of_access a" by auto
  with perform_miss_slot [OF None, of k] assms show ?thesis by simp
next
  case (Some q)
  with perform_hit [OF Some] assms show ?thesis by simp
qed

lemma perform_objects: "perform a c = (r, c') \<Longrightarrow> \<exists>ys. objects c' = objects c @ ys"
proof (cases "slot (kind_of_access a) c")
  case None
  assume "perform a c = (r, c')"
  with perform_miss_objects [OF None] show ?thesis by simp
next
  case (Some q)
  assume "perform a c = (r, c')"
  with perform_hit [OF Some] show ?thesis by simp
qed

lemma perform_ok:
  assumes "managers_ok c" and "perform a c = (r, c')"
  shows "managers_ok c'"
proof (cases "slot (kind_of_access a) c")
  case (Some q)
  with perform_hit [OF Some] assms show ?thesis by simp
next
  case None
  from assms(2) have c': "c' = snd (perform a c)" by simp
  have ob: "objects c' = objects c @ [fresh a]"
    unfolding c' by (rule perform_miss_objects [OF None])
  have sl: "\<And>k. slot k c' = (if k = kind_of_access a then Some (length (objects c)) else slot k c)"
    unfolding c' by (rule perform_miss_slot [OF None])
  show ?thesis
    unfolding managers_ok_def
  proof
    fix k
    from assms(1) have k: "case slot k c of None \<Rightarrow> constructed k c = 0
            | Some r \<Rightarrow> constructed k c = 1 \<and> r < length (objects c) \<and> kind_of_manager (objects c ! r) = k"
      by (simp add: managers_ok_def)
    show "case slot k c' of None \<Rightarrow> constructed k c' = 0
            | Some r \<Rightarrow> constructed k c' = 1 \<and> r < length (objects c') \<and> kind_of_manager (objects c' ! r) = k"
    proof (cases "k = kind_of_access a")
      case True
      with k None have "constructed k c = 0" by simp
      with True show ?thesis by (simp add: sl ob constructed_def kind_fresh)
    next
      case False
      with k show ?thesis
        by (cases "slot k c") (simp_all add: sl ob constructed_def kind_fresh nth_append)
    qed
  qed
qed

lemma run_ok: "managers_ok c \<Longrightarrow> run as c = (rs, c') \<Longrightarrow> managers_ok c'"
proof (induction as arbitrary: c rs)
  case Nil
  then show ?case by simp
next
  case (Cons a as)
  from Cons.prems(2) obtain r c1 rs' where p: "perform a c = (r, c1)"
    and t: "run as c1 = (rs', c')"
    by (auto split: prod.splits)
  from perform_ok [OF Cons.prems(1) p] t show ?case by (rule Cons.IH)
qed

lemma run_slot_keep: "slot k c = Some r \<Longrightarrow> run as c = (rs, c') \<Longrightarrow> slot k c' = Some r"
proof (induction as arbitrary: c rs)
  case Nil
  then show ?case by simp
next
  case (Cons a as)
  from Cons.prems(2) obtain q c1 rs' where p: "perform a c = (q, c1)"
    and t: "run as c1 = (rs', c')"
    by (auto split: prod.splits)
  from perform_slot_keep [OF Cons.prems(1) p] t show ?case by (rule Cons.IH)
qed

lemma run_objects: "run as c = (rs, c') \<Longrightarrow> \<exists>ys. objects c' = objects c @ ys"
proof (induction as arbitrary: c rs)
  case Nil
  then show ?case by simp
next
  case (Cons a as)
  from Cons.prems obtain q c1 rs' where p: "perform a c = (q, c1)"
    and t: "run as c1 = (rs', c')"
    by (auto split: prod.splits)
  from perform_objects [OF p] Cons.IH [OF t] show ?case by auto
qed

lemma run_final_slot:
  "run as c = (rs, c') \<Longrightarrow> i < length as \<Longrightarrow> slot (kind_of_access (as ! i)) c' = Some (rs ! i)"
proof (induction as arbitrary: c rs i)
  case Nil
  then show ?case by simp
next
  case (Cons a as)
  from Cons.prems(1) obtain r c1 rs' where p: "perform a c = (r, c1)"
    and t: "run as c1 = (rs', c')" and rs: "rs = r # rs'"
    by (auto split: prod.splits)
  show ?case
  proof (cases i)
    case 0
    from run_slot_keep [OF perform_slot [OF p] t] 0 rs show ?thesis by simp
  next
    case (Suc j)
    with Cons.prems(2) have "j < length as" by simp
    from Cons.IH [OF t this] Suc rs show ?thesis by simp
  qed
qed

lemma initialize_ok: "managers_ok (initialize env b key options)"
proof -
  have "\<And>k. case slot k (initialize env b key options) of
              None \<Rightarrow> constructed k (initialize env b key options) = 0
            | Some r \<Rightarrow> constructed k (initialize env b key options) = 1
                \<and> r < length (objects (initialize env b key options))
                \<and> kind_of_manager (objects (initialize env b key options) ! r) = k"
    subgoal for k
      by (cases k) (simp_all add: initialize_def Let_def auth_def new_object_def constructed_def)
    done
  then show ?thesis unfolding managers_ok_def by blast
qed

lemma example_client:
  "constructor example_environment (JStr ''https://api.example.com'') (JStr ''key'') JUndefined
     = Inr \<lparr>settings = JObj [(''signInRedirect'', JUndefined), (''localStorage'', JUndefined),
               (''realtime'', JObj DEFAULT_realtime), (''realtime'', JObj DEFAULT_realtime)],
            fetcher = \<lparr>baseUrl = ''https://api.example.com'',
               headers = [(''X-Client'', JStr ''agnost-js''), (''Authorization'', JStr ''key'')],
               session = JNull\<rparr>,
            authManager = Some 0, epManager = None, storageManager = None,
            realtimeManager = None, objects = [AuthManager]\<rparr>"
proof -
  have t: "trim ''https://api.example.com'' = ''https://api.example.com''"
    by (simp add: trim_def isWhiteSpace_def)
  show ?thesis
    by (simp add: constructor_def t startsWith_def example_environment_def initialize_def
        Let_def auth_def new_object_def DEFAULT_OPTIONS_def spread_def set_prop_def lookup_def)
qed

lemma example_run:
  "run [Realtime, Storage ''a'', Realtime, Auth, Storage ''b'', Endpoint]
     \<lparr>settings = JObj [(''signInRedirect'', JUndefined), (''localStorage'', JUndefined),
               (''realtime'', JObj DEFAULT_realtime), (''realtime'', JObj DEFAULT_realtime)],
      fetcher = \<lparr>baseUrl = ''https://api.example.com'',
               headers = [(''X-Client'', JStr ''agnost-js''), (''Authorization'', JStr ''key'')],
               session = JNull\<rparr>,
      authManager = Some 0, epManager = None, storageManager = None,
      realtimeManager = None, objects = [AuthManager]\<rparr>
   = ([1, 2, 1, 0, 2, 3],
     \<lparr>settings = JObj [(''signInRedirect'', JUndefined), (''localStorage'', JUndefined),
               (''realtime'', JObj DEFAULT_realtime), (''realtime'', JObj DEFAULT_realtime)],
      fetcher = \<lparr>baseUrl = ''https://api.example.com'',
               headers = [(''X-Client'', JStr ''agnost-js''), (''Authorization'', JStr ''key'')],
               session = JNull\<rparr>,
      authManager = Some 0, epManager = Some 3, storageManager = Some 2,
      realtimeManager = Some 1,
      objects = [AuthManager, RealtimeManager, StorageManager ''a'', EndpointManager]\<rparr>)"
  by (simp add: auth_def endpoint_def storage_def realtime_def new_object_def)

text \<open>
  Claim C8. On a client that the constructor returned, after any sequence of accesses to
  \<^verbatim>\<open>auth\<close>, \<^verbatim>\<open>endpoint\<close>, \<^verbatim>\<open>storage\<close> and \<^verbatim>\<open>realtime\<close>: any two
  accesses to the same accessor returned the identical manager, which is a manager of that
  accessor's kind; the client has constructed at most one manager of each kind; and an
  accessor called twice in a row returns the same manager and changes nothing the second
  time.
\<close>

theorem managers_constructed_once:
  assumes "constructor env url apiKey options = Inr c" and "run as c = (rs, c')"
  shows "(\<forall>i<length as. \<forall>j<length as.
            kind_of_access (as ! i) = kind_of_access (as ! j) \<longrightarrow> rs ! i = rs ! j)
       \<and> (\<forall>i<length as. rs ! i < length (objects c')
            \<and> kind_of_manager (objects c' ! (rs ! i)) = kind_of_access (as ! i))
       \<and> (\<forall>k. constructed k c' \<le> 1)
       \<and> (\<forall>a r c1. perform a c' = (r, c1) \<longrightarrow> perform a c1 = (r, c1))"
proof -
  from assms(1) have "managers_ok c"
    using constructor_Inr initialize_ok by blast
  then have ok: "managers_ok c'" using assms(2) by (rule run_ok)
  have 1: "\<forall>i<length as. \<forall>j<length as.
            kind_of_access (as ! i) = kind_of_access (as ! j) \<longrightarrow> rs ! i = rs ! j"
  proof (intro allI impI)
    fix i j assume "i < length as" "j < length as"
      and "kind_of_access (as ! i) = kind_of_access (as ! j)"
    with run_final_slot [OF assms(2), of i] run_final_slot [OF assms(2), of j]
    show "rs ! i = rs ! j" by simp
  qed
  have 2: "\<forall>i<length as. rs ! i < length (objects c')
            \<and> kind_of_manager (objects c' ! (rs ! i)) = kind_of_access (as ! i)"
  proof (intro allI impI)
    fix i assume "i < length as"
    from run_final_slot [OF assms(2) this]
    have s: "slot (kind_of_access (as ! i)) c' = Some (rs ! i)" .
    from ok have "case slot (kind_of_access (as ! i)) c' of
        None \<Rightarrow> constructed (kind_of_access (as ! i)) c' = 0
      | Some r \<Rightarrow> constructed (kind_of_access (as ! i)) c' = 1 \<and> r < length (objects c')
                          \<and> kind_of_manager (objects c' ! r) = kind_of_access (as ! i)"
      unfolding managers_ok_def by blast
    with s show "rs ! i < length (objects c')
            \<and> kind_of_manager (objects c' ! (rs ! i)) = kind_of_access (as ! i)"
      by simp
  qed
  have 3: "\<forall>k. constructed k c' \<le> 1"
  proof
    fix k
    from ok have "case slot k c' of None \<Rightarrow> constructed k c' = 0
        | Some r \<Rightarrow> constructed k c' = 1 \<and> r < length (objects c')
                          \<and> kind_of_manager (objects c' ! r) = k"
      unfolding managers_ok_def by blast
    then show "constructed k c' \<le> 1"
      by (cases "slot k c'") simp_all
  qed
  have 4: "\<forall>a r c1. perform a c' = (r, c1) \<longrightarrow> perform a c1 = (r, c1)"
  proof (intro allI impI)
    fix a r c1
    assume p: "perform a c' = (r, c1)"
    then have "slot (kind_of_access a) c1 = Some r" by (rule perform_slot)
    then show "perform a c1 = (r, c1)" by (rule perform_hit)
  qed
  from 1 2 3 4 show ?thesis by blast
qed

theorem managers_constructed_once_witness:
  "\<exists>c rs c'. constructor example_environment (JStr ''https://api.example.com'') (JStr ''key'') JUndefined = Inr c
      \<and> run [Realtime, Storage ''a'', Realtime, Auth, Storage ''b'', Endpoint] c = (rs, c')
      \<and> rs ! 0 = rs ! 2 \<and> rs ! 1 = rs ! 4
      \<and> constructed KStorage c' \<le> 1
      \<and> objects c' ! (rs ! 4) = StorageManager ''a''"
proof -
  let ?as = "[Realtime, Storage ''a'', Realtime, Auth, Storage ''b'', Endpoint]"
  obtain c where c: "constructor example_environment (JStr ''https://api.example.com'') (JStr ''key'') JUndefined = Inr c"
    using example_client by blast
  obtain rs c' where r: "run ?as c = (rs, c')" by (cases "run ?as c")
  note m = managers_constructed_once [OF c r]
  from m have "rs ! 0 = rs ! 2" by simp
  moreover from m have "rs ! 1 = rs ! 4" by simp
  moreover from m have "constructed KStorage c' \<le> 1" by blast
  moreover have "objects c' ! (rs ! 4) = StorageManager ''a''"
    using c r example_client example_run by simp
  ultimately show ?thesis using c r by blast
qed

text \<open>
  Claim C10. When \<^verbatim>\<open>storage(a)\<close> is the call that creates the storage manager of a
  client, every later call \<^verbatim>\<open>storage(b)\<close>, whatever \<open>b\<close> is and whatever the
  accesses in between, returns that same manager and changes nothing; the manager is bound
  to the storage name \<open>a\<close>, so \<^verbatim>\<open>bucket(name)\<close> on it targets storage \<open>a\<close> and
  uploads go to \<^verbatim>\<open>/storage/a/bucket/name/upload-formdata\<close>.
\<close>

theorem storage_first_name_wins:
  assumes "storageManager c = None" and "storage a c = (r, c1)"
    and "run as c1 = (rs, c2)" and "storage b c2 = (r', c3)"
  shows "r' = r \<and> c3 = c2 \<and> objects c3 ! r' = StorageManager a
       \<and> bucket (objects c3 ! r') name = Some \<lparr>storageName = a, bucketName = name\<rparr>
       \<and> upload_path \<lparr>storageName = a, bucketName = name\<rparr>
           = ''/storage/'' @ a @ ''/bucket/'' @ name @ ''/upload-formdata''"
proof -
  from assms(1,2) have r: "r = length (objects c)" and o1: "objects c1 = objects c @ [StorageManager a]"
    and s1: "storageManager c1 = Some r"
    by (auto simp: storage_def new_object_def)
  from s1 have "slot KStorage c1 = Some r" by simp
  from run_slot_keep [OF this assms(3)] have s2: "storageManager c2 = Some r" by simp
  with assms(4) have e: "r' = r" "c3 = c2" by (auto simp: storage_def)
  from run_objects [OF assms(3)] obtain ys where "objects c2 = objects c1 @ ys" by blast
  with o1 r have "objects c2 ! r = StorageManager a" by (simp add: nth_append)
  with e show ?thesis by (simp add: upload_path_def)
qed

theorem storage_first_name_wins_witness:
  "\<exists>c r c1 rs c2 r' c3.
      constructor example_environment (JStr ''https://api.example.com'') (JStr ''key'') JUndefined = Inr c
      \<and> storageManager c = None
      \<and> storage ''mystorage'' c = (r, c1)
      \<and> run [Realtime, Storage ''other'', Auth] c1 = (rs, c2)
      \<and> storage ''archive'' c2 = (r', c3)
      \<and> r' = r
      \<and> bucket (objects c3 ! r') ''profile-images''
           = Some \<lparr>storageName = ''mystorage'', bucketName = ''profile-images''\<rparr>"
proof -
  obtain c where c: "constructor example_environment (JStr ''https://api.example.com'') (JStr ''key'') JUndefined = Inr c"
    using example_client by blast
  with example_client have n: "storageManager c = None" by simp
  obtain r c1 where 1: "storage ''mystorage'' c = (r, c1)" by (cases "storage ''mystorage'' c")
  obtain rs c2 where 2: "run [Realtime, Storage ''other'', Auth] c1 = (rs, c2)"
    by (cases "run [Realtime, Storage ''other'', Auth] c1")
  obtain r' c3 where 3: "storage ''archive'' c2 = (r', c3)" by (cases "storage ''archive'' c2")
  from storage_first_name_wins [OF n 1 2 3, of "''profile-images''"]
  have "r' = r \<and> bucket (objects c3 ! r') ''profile-images''
           = Some \<lparr>storageName = ''mystorage'', bucketName = ''profile-images''\<rparr>"
    by blast
  with c n 1 2 3 show ?thesis by blast
qed

section \<open>Properties of the event data\<close>



section \<open>Properties of the Realtime Channel Client\<close>

subsection \<open>Channel membership\<close>





lemma closed_step: "state c = Closed \<Longrightarrow> state (step a c) = Closed"
  by (cases a)
     (auto simp: join_def leave_def send_def connect_def opened_def failed_def dropped_def
        timer_fired_def disconnect_def Let_def)

lemma closed_steps: "state c = Closed \<Longrightarrow> state (steps as c) = Closed"
  by (induction as arbitrary: c) (simp_all add: closed_step)




subsection \<open>Sending and buffering\<close>

text \<open>
  Claim C4, as the specification states it, does not hold: on a closed client with
  buffering enabled a send fails and the envelope is not appended to the outbound buffer.
\<close>

theorem send_when_closed_not_buffered:
  "state (disconnect example_realtime) \<noteq> Connected
   \<and> bufferMessages (config (disconnect example_realtime))
   \<and> send (Some ''chat_room'') ''msg'' (JStr ''hi'') (disconnect example_realtime)
       = Inl not_connected
   \<and> send (Some ''chat_room'') ''msg'' (JStr ''hi'') (disconnect example_realtime)
       \<noteq> Inr ((disconnect example_realtime)
              \<lparr>buffer := buffer (disconnect example_realtime)
                 @ [build_envelope (connectionId (disconnect example_realtime))
                      (Some ''chat_room'') ''msg'' (JStr ''hi'')]\<rparr>)"
  by (simp add: send_def disconnect_def example_realtime_def Let_def)

text \<open>
  Claim C4, amended. A send on a closed client fails, and nothing is buffered or
  transmitted. On a client that is not closed, a send transmits the envelope at once if the
  client is connected; if it is not connected it appends the envelope to the outbound buffer
  when buffering is enabled, and fails with \<^verbatim>\<open>not_connected\<close>, the client unchanged,
  when buffering is disabled.
\<close>

theorem send_cases:
  "(state c = Closed \<longrightarrow> (\<exists>x. send ch ev p c = Inl x) \<and> step (Send ch ev p) c = c)
   \<and> (state c = Connected \<longrightarrow>
      send ch ev p c
        = Inr (c\<lparr>transmitted := transmitted c @ [MessageFrame (build_envelope (connectionId c) ch ev p)]\<rparr>))
   \<and> (state c \<noteq> Connected \<and> state c \<noteq> Closed \<and> bufferMessages (config c) \<longrightarrow>
      send ch ev p c
        = Inr (c\<lparr>buffer := buffer c @ [build_envelope (connectionId c) ch ev p]\<rparr>))
   \<and> (state c \<noteq> Connected \<and> \<not> bufferMessages (config c) \<longrightarrow>
      send ch ev p c = Inl not_connected \<and> step (Send ch ev p) c = c)"
  by (simp add: send_def Let_def)

theorem send_cases_witness:
  "send (Some ''chat_room'') ''msg'' (JStr ''hi'') (example_realtime\<lparr>state := Connected, connectionId := Some ''me''\<rparr>)
     = Inr (example_realtime\<lparr>state := Connected, connectionId := Some ''me'',
              transmitted := [MessageFrame \<lparr>channel = Some ''chat_room'', event = ''msg'',
                 payload = JStr ''hi'', originId = ''me''\<rparr>]\<rparr>)
   \<and> send (Some ''chat_room'') ''msg'' (JStr ''hi'') (example_realtime\<lparr>state := Reconnecting\<rparr>)
     = Inr (example_realtime\<lparr>state := Reconnecting,
              buffer := [\<lparr>channel = Some ''chat_room'', event = ''msg'',
                 payload = JStr ''hi'', originId = []\<rparr>]\<rparr>)
   \<and> send (Some ''chat_room'') ''msg'' (JStr ''hi'')
        (example_realtime\<lparr>config := (config example_realtime)\<lparr>bufferMessages := False\<rparr>\<rparr>)
     = Inl not_connected
   \<and> step (Send (Some ''chat_room'') ''msg'' (JStr ''hi'')) (example_realtime\<lparr>state := Closed\<rparr>)
     = example_realtime\<lparr>state := Closed\<rparr>"
proof -
  let ?c1 = "example_realtime\<lparr>state := Connected, connectionId := Some ''me''\<rparr>"
  let ?c2 = "example_realtime\<lparr>state := Reconnecting\<rparr>"
  let ?c3 = "example_realtime\<lparr>config := (config example_realtime)\<lparr>bufferMessages := False\<rparr>\<rparr>"
  let ?c4 = "example_realtime\<lparr>state := Closed\<rparr>"
  have 1: "send (Some ''chat_room'') ''msg'' (JStr ''hi'') ?c1
     = Inr (example_realtime\<lparr>state := Connected, connectionId := Some ''me'',
              transmitted := [MessageFrame \<lparr>channel = Some ''chat_room'', event = ''msg'',
                 payload = JStr ''hi'', originId = ''me''\<rparr>]\<rparr>)"
    using send_cases [of ?c1 "Some ''chat_room''" "''msg''" "JStr ''hi''"]
    by (simp add: example_realtime_def build_envelope_def)
  have 2: "send (Some ''chat_room'') ''msg'' (JStr ''hi'') ?c2
     = Inr (example_realtime\<lparr>state := Reconnecting,
              buffer := [\<lparr>channel = Some ''chat_room'', event = ''msg'',
                 payload = JStr ''hi'', originId = []\<rparr>]\<rparr>)"
    using send_cases [of ?c2 "Some ''chat_room''" "''msg''" "JStr ''hi''"]
    by (simp add: example_realtime_def build_envelope_def)
  have 3: "send (Some ''chat_room'') ''msg'' (JStr ''hi'') ?c3 = Inl not_connected"
    using send_cases [of ?c3 "Some ''chat_room''" "''msg''" "JStr ''hi''"]
    by (simp add: example_realtime_def)
  have "state ?c4 = Closed" by simp
  with send_cases [of ?c4 "Some ''chat_room''" "''msg''" "JStr ''hi''"]
  have 4: "step (Send (Some ''chat_room'') ''msg'' (JStr ''hi'')) ?c4 = ?c4"
    by blast
  from 1 2 3 4 show ?thesis by blast
qed

lemma sent_envelopes_Cons:
  "sent_envelopes cid (a # as) = sent_envelopes cid [a] @ sent_envelopes cid as"
  by (cases a) simp_all

lemma offline_step:
  assumes "offline_action a" and "state c \<noteq> Connected" and "state c \<noteq> Closed"
    and "bufferMessages (config c)"
  shows "state (step a c) \<noteq> Connected \<and> state (step a c) \<noteq> Closed
       \<and> config (step a c) = config c
       \<and> connectionId (step a c) = connectionId c
       \<and> transmitted (step a c) = transmitted c
       \<and> buffer (step a c) = buffer c @ sent_envelopes (connectionId c) [a]"
  using assms
  by (cases a)
     (auto simp: join_def leave_def send_def connect_def failed_def dropped_def
        timer_fired_def Let_def)

lemma offline_steps:
  assumes "\<forall>a \<in> set as. offline_action a" and "state c \<noteq> Connected"
    and "state c \<noteq> Closed" and "bufferMessages (config c)"
  shows "state (steps as c) \<noteq> Connected \<and> config (steps as c) = config c
       \<and> connectionId (steps as c) = connectionId c
       \<and> transmitted (steps as c) = transmitted c
       \<and> buffer (steps as c) = buffer c @ sent_envelopes (connectionId c) as"
  using assms
proof (induction as arbitrary: c)
  case Nil
  then show ?case by simp
next
  case (Cons a as)
  from Cons.prems have a: "offline_action a" and as: "\<forall>a \<in> set as. offline_action a" by simp_all
  note s = offline_step [OF a Cons.prems(2,3,4)]
  from s Cons.prems(4) have b: "bufferMessages (config (step a c))" by simp
  from s have n: "state (step a c) \<noteq> Connected" "state (step a c) \<noteq> Closed" by simp_all
  from Cons.IH [OF as n b] s show ?case
    by (simp add: sent_envelopes_Cons [of _ a as])
qed

lemma joins_before_messages:
  assumes "(map JoinFrame ms @ map MessageFrame es) ! k = JoinFrame ch"
    and "(map JoinFrame ms @ map MessageFrame es) ! j = MessageFrame e"
    and "k < length ms + length es" and "j < length ms + length es"
  shows "k < j"
proof -
  from assms(1,3) have "k < length ms" by (auto simp: nth_append split: if_splits)
  moreover from assms(2,4) have "length ms \<le> j" by (auto simp: nth_append split: if_splits)
  ultimately show ?thesis by simp
qed

lemma example_offline_eq:
  "example_offline = example_realtime\<lparr>state := Reconnecting, connectionId := Some ''c1'',
      membership := [''chat_room''], transmitted := [JoinFrame ''chat_room'']\<rparr>"
  by (simp add: example_offline_def example_realtime_def join_def connect_def opened_def
      dropped_def rejoin_frames_def flush_frames_def)

text \<open>
  Claim C2. With buffering enabled, let a client that is not connected go through any
  actions that neither open nor close the connection, sends among them, until a connection
  attempt is under way. Then the buffer holds the envelopes of the sends in the order of the
  calls, behind what it held before, and nothing was transmitted meanwhile; when the attempt
  succeeds, the client transmits the join frames of the channel registry (if automatic
  rejoin is enabled) and then the buffered envelopes in that same order, and the buffer is
  empty. Among the frames of that connection every join frame comes before every message
  frame.
\<close>

theorem buffered_sends_flushed_in_order:
  assumes "bufferMessages (config c)" and "state c \<noteq> Connected"
    and "\<forall>a \<in> set as. offline_action a" and "state (steps as c) = Connecting"
  shows "buffer (steps as c) = buffer c @ sent_envelopes (connectionId c) as
       \<and> transmitted (steps as c) = transmitted c
       \<and> state (opened i (steps as c)) = Connected
       \<and> buffer (opened i (steps as c)) = []
       \<and> transmitted (opened i (steps as c))
           = transmitted c
             @ (if autoJoinChannels (config c) then map JoinFrame (membership (steps as c)) else [])
             @ map MessageFrame (buffer c @ sent_envelopes (connectionId c) as)
       \<and> (\<forall>k j ch e. k < length (rejoin_frames (steps as c) @ flush_frames (steps as c))
             \<and> j < length (rejoin_frames (steps as c) @ flush_frames (steps as c))
             \<and> (rejoin_frames (steps as c) @ flush_frames (steps as c)) ! k = JoinFrame ch
             \<and> (rejoin_frames (steps as c) @ flush_frames (steps as c)) ! j = MessageFrame e
             \<longrightarrow> k < j)"
proof -
  have "state c \<noteq> Closed"
    using closed_steps [of c as] assms(4) by auto
  note o = offline_steps [OF assms(3,2) this assms(1)]
  have 1: "buffer (steps as c) = buffer c @ sent_envelopes (connectionId c) as" using o by simp
  have 2: "transmitted (steps as c) = transmitted c" using o by simp
  have cf: "config (steps as c) = config c" using o by simp
  have 3: "state (opened i (steps as c)) = Connected"
    using assms(4) by (simp add: opened_def)
  have 4: "buffer (opened i (steps as c)) = []"
    using assms(1,4) cf by (simp add: opened_def)
  have 5: "transmitted (opened i (steps as c))
           = transmitted c
             @ (if autoJoinChannels (config c) then map JoinFrame (membership (steps as c)) else [])
             @ map MessageFrame (buffer c @ sent_envelopes (connectionId c) as)"
    using assms(1,4) cf 1 2 by (simp add: opened_def rejoin_frames_def flush_frames_def)
  have 6: "\<forall>k j ch e. k < length (rejoin_frames (steps as c) @ flush_frames (steps as c))
             \<and> j < length (rejoin_frames (steps as c) @ flush_frames (steps as c))
             \<and> (rejoin_frames (steps as c) @ flush_frames (steps as c)) ! k = JoinFrame ch
             \<and> (rejoin_frames (steps as c) @ flush_frames (steps as c)) ! j = MessageFrame e
             \<longrightarrow> k < j"
  proof (intro allI impI, elim conjE)
    fix k j ch e
    let ?fs = "rejoin_frames (steps as c) @ flush_frames (steps as c)"
    assume k: "k < length ?fs" and j: "j < length ?fs"
      and kf: "?fs ! k = JoinFrame ch" and jf: "?fs ! j = MessageFrame e"
    obtain ms where ms: "rejoin_frames (steps as c) = map JoinFrame ms"
      by (cases "autoJoinChannels (config (steps as c))") (simp_all add: rejoin_frames_def)
    obtain es where es: "flush_frames (steps as c) = map MessageFrame es"
      by (cases "bufferMessages (config (steps as c))") (simp_all add: flush_frames_def)
    from k j kf jf show "k < j"
      unfolding ms es by (intro joins_before_messages [of ms es k ch j e]) simp_all
  qed
  from 1 2 3 4 5 6 show ?thesis by blast
qed

theorem buffered_sends_flushed_in_order_witness:
  "transmitted (opened ''c2'' (steps [Send (Some ''chat_room'') ''msg'' (JStr ''hi''),
        Send (Some ''chat_room'') ''msg'' (JStr ''hi''), TimerFired] example_offline))
     = [JoinFrame ''chat_room'', JoinFrame ''chat_room'',
        MessageFrame \<lparr>channel = Some ''chat_room'', event = ''msg'', payload = JStr ''hi'', originId = ''c1''\<rparr>,
        MessageFrame \<lparr>channel = Some ''chat_room'', event = ''msg'', payload = JStr ''hi'', originId = ''c1''\<rparr>]
   \<and> buffer (opened ''c2'' (steps [Send (Some ''chat_room'') ''msg'' (JStr ''hi''),
        Send (Some ''chat_room'') ''msg'' (JStr ''hi''), TimerFired] example_offline)) = []"
proof -
  let ?as = "[Send (Some ''chat_room'') ''msg'' (JStr ''hi''),
        Send (Some ''chat_room'') ''msg'' (JStr ''hi''), TimerFired]"
  have s: "steps ?as example_offline
      = example_realtime\<lparr>state := Connecting, connectionId := Some ''c1'',
          membership := [''chat_room''], transmitted := [JoinFrame ''chat_room''],
          buffer := [\<lparr>channel = Some ''chat_room'', event = ''msg'', payload = JStr ''hi'', originId = ''c1''\<rparr>,
                     \<lparr>channel = Some ''chat_room'', event = ''msg'', payload = JStr ''hi'', originId = ''c1''\<rparr>]\<rparr>"
    by (simp add: example_offline_eq example_realtime_def send_def timer_fired_def Let_def
        build_envelope_def)
  have 1: "bufferMessages (config example_offline)"
    by (simp add: example_offline_eq example_realtime_def)
  have 2: "state example_offline \<noteq> Connected"
    by (simp add: example_offline_eq example_realtime_def)
  have 3: "\<forall>a \<in> set ?as. offline_action a" by simp
  have 4: "state (steps ?as example_offline) = Connecting"
    unfolding s by (simp add: example_realtime_def)
  have 5: "sent_envelopes (connectionId example_offline) ?as
      = [\<lparr>channel = Some ''chat_room'', event = ''msg'', payload = JStr ''hi'', originId = ''c1''\<rparr>,
         \<lparr>channel = Some ''chat_room'', event = ''msg'', payload = JStr ''hi'', originId = ''c1''\<rparr>]"
    by (simp add: example_offline_eq example_realtime_def build_envelope_def)
  have 6: "membership (steps ?as example_offline) = [''chat_room'']"
    unfolding s by (simp add: example_realtime_def)
  have 7: "autoJoinChannels (config example_offline)" "buffer example_offline = []"
    "transmitted example_offline = [JoinFrame ''chat_room'']"
    by (simp_all add: example_offline_eq example_realtime_def)
  from buffered_sends_flushed_in_order [OF 1 2 3 4, of "''c2''"]
  show ?thesis
    unfolding 5 6 by (simp add: 7)
qed

subsection \<open>Dispatch to listeners\<close>

lemma example_listening_eq:
  "example_listening = example_realtime\<lparr>state := Connected, connectionId := Some ''me'',
      listeners := [(''msg'', 1), (''msg'', 2), (''member-joined'', 3)],
      joinListeners := [7], leaveListeners := [8], updateListeners := [9]\<rparr>"
  by (simp add: example_listening_def on_def onJoin_def onLeave_def onUpdate_def example_realtime_def)

text \<open>
  Claim C3. With echo suppression enabled (\<^verbatim>\<open>echoMessages\<close> false), an inbound envelope
  whose origin is the client's own connection identifier is handed to no listener that was
  registered with \<^verbatim>\<open>on\<close>. A presence notification (member joined, left or updated)
  is handed to every listener registered with \<^verbatim>\<open>onJoin\<close>, \<^verbatim>\<open>onLeave\<close> or
  \<^verbatim>\<open>onUpdate\<close> respectively, whatever its origin and whatever the echo setting.
\<close>

theorem echo_suppression:
  "(\<not> echoMessages (config c) \<and> connectionId c = Some (originId e) \<longrightarrow>
      (\<forall>l e'. Custom l e' \<notin> set (dispatch c e)))
   \<and> (event e = ''member-joined'' \<longrightarrow>
        (\<forall>l \<in> set (joinListeners c). System l e \<in> set (dispatch c e)))
   \<and> (event e = ''member-left'' \<longrightarrow>
        (\<forall>l \<in> set (leaveListeners c). System l e \<in> set (dispatch c e)))
   \<and> (event e = ''member-updated'' \<longrightarrow>
        (\<forall>l \<in> set (updateListeners c). System l e \<in> set (dispatch c e)))"
  by (auto simp: dispatch_def suppressed_def presence_listeners_def)

theorem echo_suppression_witness:
  "Custom 1 \<lparr>channel = Some ''chat_room'', event = ''msg'', payload = JStr ''hi'', originId = ''me''\<rparr>
     \<notin> set (dispatch example_listening \<lparr>channel = Some ''chat_room'', event = ''msg'', payload = JStr ''hi'', originId = ''me''\<rparr>)
   \<and> dispatch example_listening \<lparr>channel = Some ''chat_room'', event = ''msg'', payload = JStr ''hi'', originId = ''me''\<rparr> = []
   \<and> dispatch example_listening \<lparr>channel = Some ''chat_room'', event = ''msg'', payload = JStr ''hi'', originId = ''you''\<rparr>
      = [Custom 1 \<lparr>channel = Some ''chat_room'', event = ''msg'', payload = JStr ''hi'', originId = ''you''\<rparr>,
         Custom 2 \<lparr>channel = Some ''chat_room'', event = ''msg'', payload = JStr ''hi'', originId = ''you''\<rparr>]
   \<and> dispatch example_listening \<lparr>channel = Some ''chat_room'', event = ''member-joined'', payload = JNull, originId = ''me''\<rparr>
      = [System 7 \<lparr>channel = Some ''chat_room'', event = ''member-joined'', payload = JNull, originId = ''me''\<rparr>]
   \<and> System 8 \<lparr>channel = Some ''chat_room'', event = ''member-left'', payload = JNull, originId = ''me''\<rparr>
        \<in> set (dispatch example_listening \<lparr>channel = Some ''chat_room'', event = ''member-left'', payload = JNull, originId = ''me''\<rparr>)
   \<and> System 9 \<lparr>channel = Some ''chat_room'', event = ''member-updated'', payload = JNull, originId = ''me''\<rparr>
        \<in> set (dispatch example_listening \<lparr>channel = Some ''chat_room'', event = ''member-updated'', payload = JNull, originId = ''me''\<rparr>)"
proof -
  let ?m = "\<lparr>channel = Some ''chat_room'', event = ''msg'', payload = JStr ''hi'', originId = ''me''\<rparr>"
  let ?l = "\<lparr>channel = Some ''chat_room'', event = ''member-left'', payload = JNull, originId = ''me''\<rparr>"
  let ?u = "\<lparr>channel = Some ''chat_room'', event = ''member-updated'', payload = JNull, originId = ''me''\<rparr>"
  have c: "\<not> echoMessages (config example_listening)" "connectionId example_listening = Some ''me''"
    "leaveListeners example_listening = [8]" "updateListeners example_listening = [9]"
    by (simp_all add: example_listening_eq example_realtime_def)
  have 0: "Custom 1 ?m \<notin> set (dispatch example_listening ?m)"
    using echo_suppression [of example_listening ?m] c by simp
  have 1: "dispatch example_listening ?m = []"
    by (simp add: dispatch_def presence_listeners_def suppressed_def example_listening_eq example_realtime_def)
  have 4: "System 8 ?l \<in> set (dispatch example_listening ?l)"
    using echo_suppression [of example_listening ?l] c by simp
  have 5: "System 9 ?u \<in> set (dispatch example_listening ?u)"
    using echo_suppression [of example_listening ?u] c by simp
  have 2: "dispatch example_listening \<lparr>channel = Some ''chat_room'', event = ''msg'', payload = JStr ''hi'', originId = ''you''\<rparr>
      = [Custom 1 \<lparr>channel = Some ''chat_room'', event = ''msg'', payload = JStr ''hi'', originId = ''you''\<rparr>,
         Custom 2 \<lparr>channel = Some ''chat_room'', event = ''msg'', payload = JStr ''hi'', originId = ''you''\<rparr>]"
    by (simp add: dispatch_def presence_listeners_def suppressed_def example_listening_eq example_realtime_def)
  have 3: "dispatch example_listening \<lparr>channel = Some ''chat_room'', event = ''member-joined'', payload = JNull, originId = ''me''\<rparr>
      = [System 7 \<lparr>channel = Some ''chat_room'', event = ''member-joined'', payload = JNull, originId = ''me''\<rparr>]"
    by (simp add: dispatch_def presence_listeners_def suppressed_def example_listening_eq example_realtime_def)
  from 0 1 2 3 4 5 show ?thesis by blast
qed

end
